theory Spec2Isabelle
  imports Main
begin

section \<open>Data model\<close>

text \<open>
  Byte slices are character lists (a \<open>char\<close> is one byte); Go's \<open>nil\<close> slice is the
  empty list. A \<open>time.Time\<close> is a number of nanoseconds counted from the zero value
  \<open>time.Time{}\<close>; a \<open>time.Duration\<close> is a number of nanoseconds.
\<close>

type_synonym bytes = "char list"
type_synonym Time = int
type_synonym Duration = int

definition zeroTime :: Time where
  "zeroTime = 0"

definition Millisecond :: Duration where
  "Millisecond = 1000000"

definition Second :: Duration where
  "Second = 1000000000"

definition Minute :: Duration where
  "Minute = 60 * Second"

definition maxDuration :: Duration where
  "maxDuration = 2 ^ 63 - 1"

definition minDuration :: Duration where
  "minDuration = - (2 ^ 63)"

text \<open>
  \<open>t.Sub(u)\<close> of package time: the difference, saturated to the range of a 64-bit
  duration. \<open>time.Until(t)\<close> is \<open>t.Sub(time.Now())\<close>.
\<close>

definition Sub :: "Time \<Rightarrow> Time \<Rightarrow> Duration" where
  "Sub t u =
     (let d = t - u
      in if d > maxDuration then maxDuration
         else if d < minDuration then minDuration
         else d)"

definition Until :: "Time \<Rightarrow> Time \<Rightarrow> Duration" where
  "Until now t = Sub t now"

text \<open>The sentinel errors of errors.go.\<close>

datatype error =
    ErrInvalidCertificate
  | ErrNoOCSPServerDefined
  | ErrCouldNotCreateOCSPRequest
  | ErrCouldNotPostOCSPRequest
  | ErrCouldNotReadOCSPResponse
  | ErrCouldNotCloseBody
  | ErrCouldNotParseResponse

text \<open>The constant \<open>retry\<close> of ocspstapling.go.\<close>

definition retry :: int where
  "retry = 10"

text \<open>
  What the program reads of a parsed \<open>x509.Certificate\<close> and of a parsed
  \<open>ocsp.Response\<close>.
\<close>

record x509_Certificate =
  Raw :: bytes
  OCSPServer :: "string list"

record ocsp_Response =
  NextUpdate :: Time

text \<open>The struct \<open>tls.Certificate\<close>: the chain (leaf first), the key, the staple.\<close>

record tls_Certificate =
  Certificate :: "bytes list"
  PrivateKey :: bytes
  SupportedSignatureAlgorithms :: "nat list"
  OCSPStaple :: bytes
  SignedCertificateTimestamps :: "bytes list"
  Leaf :: "x509_Certificate option"

text \<open>
  The program always uses the default client \<open>&http.Client{}\<close>; what its \<open>Post\<close>
  does is a field of the environment below.
\<close>

datatype http_Client = DefaultClient

text \<open>
  The struct \<open>Stapling\<close>. The state of its \<open>sync.RWMutex\<close> is not a field of the
  record: every \<open>Lock\<close>, \<open>Unlock\<close>, \<open>RLock\<close> and \<open>RUnlock\<close> is an event of
  the trace, and the mutex is held exactly when the last such event says so (\<open>held\<close>).
\<close>

record Stapling =
  certificate :: tls_Certificate
  useOCSPStapling :: bool
  httpClient :: http_Client

section \<open>Effects\<close>

text \<open>
  The effects of the program are the events it appends to a trace, in the order in which
  they happen: the HTTP POSTs (url, content type, body), the timers it arms, what its
  \<open>select\<close> statements receive, and the operations on the mutex.
\<close>

datatype event =
    EvPost string string bytes
  | EvNewTimer Duration
  | EvReset Duration
  | EvStop
  | EvFired
  | EvDone
  | EvLock
  | EvUnlock
  | EvRLock
  | EvRUnlock

type_synonym trace = "event list"

text \<open>
  What one \<open>httpClient.Post\<close> followed by \<open>io.ReadAll\<close> and \<open>Body.Close\<close> can
  yield: the POST fails; the body cannot be read; the body is read but cannot be closed;
  the body is read and closed.
\<close>

datatype http_outcome =
    PostError
  | ReadError
  | CloseError bytes
  | Delivered bytes

text \<open>
  The external collaborators. The decoders are functions (\<open>None\<close> is their error). The
  transport and the clock answer from the history of events so far, so that successive
  requests may be answered differently.
\<close>

record env =
  ParseCertificate :: "bytes \<Rightarrow> x509_Certificate option"
  CreateRequest :: "x509_Certificate \<Rightarrow> x509_Certificate \<Rightarrow> bytes option"
  ParseResponse :: "bytes \<Rightarrow> x509_Certificate \<Rightarrow> ocsp_Response option"
  Post :: "trace \<Rightarrow> string \<Rightarrow> string \<Rightarrow> bytes \<Rightarrow> http_outcome"
  Now :: "trace \<Rightarrow> Time"

text \<open>
  A \<open>context.Context\<close>, as far as a \<open>select\<close> sees it: whether, at this point of the
  history, the \<open>select\<close> receives from \<open>ctx.Done()\<close> rather than from the timer.
\<close>

type_synonym Context = "trace \<Rightarrow> bool"

text \<open>A Go call either returns or panics.\<close>

datatype 'a go = Panics | Returns 'a

section \<open>fetchOCSP\<close>

text \<open>
  The function returns the triple \<open>([]byte, time.Time, error)\<close>; a \<open>nil\<close> error is
  \<open>None\<close>. Indexing the empty chain at 0 panics.
\<close>

definition fetchOCSP ::
  "env \<Rightarrow> tls_Certificate \<Rightarrow> http_Client \<Rightarrow> trace \<Rightarrow> trace \<times> (bytes \<times> Time \<times> error option) go" where
  "fetchOCSP e cert client tr =
     (case Certificate cert of
        [] \<Rightarrow> (tr, Panics)
      | owner # rest \<Rightarrow>
        (case ParseCertificate e owner of
           None \<Rightarrow> (tr, Returns ([], zeroTime, Some ErrInvalidCertificate))
         | Some x509Cert \<Rightarrow>
           (case OCSPServer x509Cert of
              [] \<Rightarrow> (tr, Returns ([], zeroTime, Some ErrNoOCSPServerDefined))
            | ocspServer # _ \<Rightarrow>
              (case rest of
                 [] \<Rightarrow> (tr, Returns ([], zeroTime, Some ErrInvalidCertificate))
               | issuer # _ \<Rightarrow>
                 (case ParseCertificate e issuer of
                    None \<Rightarrow> (tr, Returns ([], zeroTime, Some ErrInvalidCertificate))
                  | Some x509Issuer \<Rightarrow>
                    (case CreateRequest e x509Cert x509Issuer of
                       None \<Rightarrow> (tr, Returns ([], zeroTime, Some ErrCouldNotCreateOCSPRequest))
                     | Some ocspRequest \<Rightarrow>
                       (let tr' = tr @ [EvPost ocspServer ''application/ocsp-request'' ocspRequest]
                        in case Post e tr ocspServer ''application/ocsp-request'' ocspRequest of
                             PostError \<Rightarrow>
                               (tr', Returns ([], zeroTime, Some ErrCouldNotPostOCSPRequest))
                           | ReadError \<Rightarrow>
                               (tr', Returns ([], zeroTime, Some ErrCouldNotReadOCSPResponse))
                           | CloseError ocspResponseData \<Rightarrow>
                               (tr', Returns (ocspResponseData, zeroTime, Some ErrCouldNotCloseBody))
                           | Delivered ocspResponseData \<Rightarrow>
                               (case ParseResponse e ocspResponseData x509Issuer of
                                  None \<Rightarrow>
                                    (tr', Returns ([], zeroTime, Some ErrCouldNotParseResponse))
                                | Some response \<Rightarrow>
                                    (tr', Returns (ocspResponseData, NextUpdate response, None))))))))))"

section \<open>The capability prober\<close>

text \<open>
  The \<open>for\<close> loop of \<open>ocspStaplingCanBeUsed\<close>, from the value \<open>i\<close> of its counter
  on. Each iteration is one \<open>select\<close>: it receives from \<open>ctx.Done()\<close> and returns
  false, or it receives from the timer and calls \<open>fetchOCSP\<close>. The counter is a Go
  \<open>int\<close> that starts at 0 and is incremented only below \<open>retry\<close>: it never wraps, and
  neither does the duration computed from it.
\<close>

function probe_loop ::
  "env \<Rightarrow> Context \<Rightarrow> tls_Certificate \<Rightarrow> http_Client \<Rightarrow> int \<Rightarrow> trace \<Rightarrow> trace \<times> bool go" where
  "probe_loop e ctx cert client i tr =
     (if i < retry then
        (if ctx tr then (tr @ [EvDone], Returns False)
         else
           (case fetchOCSP e cert client (tr @ [EvFired]) of
              (tr', Panics) \<Rightarrow> (tr', Panics)
            | (tr', Returns (resp, renewAt, err)) \<Rightarrow>
                if err = None then (tr', Returns True)
                else if err \<noteq> Some ErrCouldNotPostOCSPRequest then (tr', Returns False)
                else probe_loop e ctx cert client (i + 1) (tr' @ [EvReset (Second * (i + 1))])))
      else (tr, Returns False))"
  by pat_completeness auto
termination
  by (relation "measure (\<lambda>(e, ctx, cert, client, i, tr). nat (retry - i))") auto

declare probe_loop.simps [simp del]

text \<open>
  The whole function: the timer is created for one millisecond, the loop runs, and the
  deferred \<open>retryTimer.Stop()\<close> runs when the function is left, also by a panic.
\<close>

definition ocspStaplingCanBeUsed :: "env \<Rightarrow> Context \<Rightarrow> tls_Certificate \<Rightarrow> trace \<Rightarrow> trace \<times> bool go" where
  "ocspStaplingCanBeUsed e ctx cert tr =
     (case probe_loop e ctx cert DefaultClient 0 (tr @ [EvNewTimer Millisecond]) of
        (tr', r) \<Rightarrow> (tr' @ [EvStop], r))"

definition NewStapling :: "env \<Rightarrow> Context \<Rightarrow> tls_Certificate \<Rightarrow> trace \<Rightarrow> trace \<times> Stapling go" where
  "NewStapling e ctx cert tr =
     (case ocspStaplingCanBeUsed e ctx cert tr of
        (tr', Panics) \<Rightarrow> (tr', Panics)
      | (tr', Returns b) \<Rightarrow>
          (tr', Returns \<lparr>certificate = cert, useOCSPStapling = b, httpClient = DefaultClient\<rparr>))"

section \<open>The renewal scheduler\<close>

text \<open>
  One iteration of the \<open>for\<close> loop of \<open>RunOCSPRenewal\<close>, at the value \<open>errorCount\<close>
  of its counter: the loop goes on (with the new instance, counter and trace), the
  function returns, or \<open>fetchOCSP\<close> panics (the mutex is then still held). The counter
  is a Go \<open>int\<close>; it is incremented only when it is at most \<open>retry\<close>, so it never
  wraps.
\<close>

datatype tick_result =
    Continue Stapling int trace
  | Return Stapling trace
  | Panic Stapling trace

definition tick :: "env \<Rightarrow> Context \<Rightarrow> Stapling \<Rightarrow> int \<Rightarrow> trace \<Rightarrow> tick_result" where
  "tick e ctx s errorCount tr =
     (if ctx tr then Return s (tr @ [EvDone])
      else
        (case fetchOCSP e (certificate s) (httpClient s) (tr @ [EvFired, EvLock]) of
           (tr', Panics) \<Rightarrow> Panic s tr'
         | (tr', Returns (resp, renewAt, err)) \<Rightarrow>
             (case err of
                Some err' \<Rightarrow>
                  if err' = ErrCouldNotPostOCSPRequest then
                    (if errorCount > retry then Return s (tr' @ [EvUnlock])
                     else Continue s (errorCount + 1) (tr' @ [EvUnlock, EvReset Minute]))
                  else Return (s\<lparr>useOCSPStapling := False\<rparr>) (tr' @ [EvUnlock])
              | None \<Rightarrow>
                  Continue (s\<lparr>certificate := (certificate s)\<lparr>OCSPStaple := resp\<rparr>\<rparr>) 0
                    (tr' @ [EvReset (Until (Now e tr') renewAt), EvUnlock]))))"

text \<open>
  The loop itself may run for ever (a responder that always answers, a context that is
  never cancelled): \<open>None\<close> is the run that does not return.
\<close>

partial_function (option) renewal_loop ::
  "env \<Rightarrow> Context \<Rightarrow> Stapling \<Rightarrow> int \<Rightarrow> trace \<Rightarrow> (Stapling \<times> trace \<times> unit go) option" where
  "renewal_loop e ctx s errorCount tr =
     (case tick e ctx s errorCount tr of
        Continue s' errorCount' tr' \<Rightarrow> renewal_loop e ctx s' errorCount' tr'
      | Return s' tr' \<Rightarrow> Some (s', tr', Returns ())
      | Panic s' tr' \<Rightarrow> Some (s', tr', Panics))"

declare renewal_loop.simps [code]

text \<open>
  The whole method: nothing happens when stapling is not in use; otherwise the timer is
  created for one second, the loop runs from the counter 0, and the deferred
  \<open>timer.Stop()\<close> runs when the method is left.
\<close>

definition RunOCSPRenewal ::
  "env \<Rightarrow> Context \<Rightarrow> Stapling \<Rightarrow> trace \<Rightarrow> (Stapling \<times> trace \<times> unit go) option" where
  "RunOCSPRenewal e ctx s tr =
     (if \<not> useOCSPStapling s then Some (s, tr, Returns ())
      else
        (case renewal_loop e ctx s 0 (tr @ [EvNewTimer Second]) of
           None \<Rightarrow> None
         | Some (s', tr', r) \<Rightarrow> Some (s', tr' @ [EvStop], r)))"

section \<open>The accessor\<close>

text \<open>
  The method \<open>Certificate\<close> of \<open>Stapling\<close>: a copy of the bundle taken under the read
  lock, and the error, which is \<open>nil\<close>.
\<close>

definition Stapling_Certificate :: "Stapling \<Rightarrow> trace \<Rightarrow> trace \<times> tls_Certificate \<times> error option" where
  "Stapling_Certificate s tr = (tr @ [EvRLock, EvRUnlock], certificate s, None)"

section \<open>Reading a trace\<close>

text \<open>Whether the mutex is held for writing after a trace, given whether it was before.\<close>

fun held_after :: "bool \<Rightarrow> trace \<Rightarrow> bool" where
  "held_after h [] = h"
| "held_after h (EvLock # tr) = held_after True tr"
| "held_after h (EvUnlock # tr) = held_after False tr"
| "held_after h (_ # tr) = held_after h tr"

definition held :: "trace \<Rightarrow> bool" where
  "held tr = held_after False tr"

fun is_post :: "event \<Rightarrow> bool" where
  "is_post (EvPost url ctype body) = True"
| "is_post _ = False"

text \<open>The POSTs of a trace, and the durations for which a timer was armed, in order.\<close>

definition posts :: "trace \<Rightarrow> event list" where
  "posts tr = filter is_post tr"

fun armed :: "trace \<Rightarrow> Duration list" where
  "armed [] = []"
| "armed (EvNewTimer d # tr) = d # armed tr"
| "armed (EvReset d # tr) = d # armed tr"
| "armed (_ # tr) = armed tr"

text \<open>The trace a tick leaves, the instance it leaves, and the error of a fetch.\<close>

fun tick_trace :: "tick_result \<Rightarrow> trace" where
  "tick_trace (Continue s n tr) = tr"
| "tick_trace (Return s tr) = tr"
| "tick_trace (Panic s tr) = tr"

fun tick_state :: "tick_result \<Rightarrow> Stapling" where
  "tick_state (Continue s n tr) = s"
| "tick_state (Return s tr) = s"
| "tick_state (Panic s tr) = s"

fun is_Panic :: "tick_result \<Rightarrow> bool" where
  "is_Panic (Panic s tr) = True"
| "is_Panic _ = False"


definition attempt_transient :: "env \<Rightarrow> tls_Certificate \<Rightarrow> http_Client \<Rightarrow> trace \<Rightarrow> bool" where
  "attempt_transient e cert client tr =
     (case snd (fetchOCSP e cert client tr) of
        Panics \<Rightarrow> False
      | Returns (resp, renewAt, err) \<Rightarrow> err = Some ErrCouldNotPostOCSPRequest)"

text \<open>
  Two instances that agree on everything but the staple of the bundle and the flag: the
  chain, the key and every other field of the bundle, and the client.
\<close>

definition unchanged_but_staple_and_flag :: "Stapling \<Rightarrow> Stapling \<Rightarrow> bool" where
  "unchanged_but_staple_and_flag s s' \<longleftrightarrow>
     Certificate (certificate s') = Certificate (certificate s) \<and>
     PrivateKey (certificate s') = PrivateKey (certificate s) \<and>
     SupportedSignatureAlgorithms (certificate s') = SupportedSignatureAlgorithms (certificate s) \<and>
     SignedCertificateTimestamps (certificate s') = SignedCertificateTimestamps (certificate s) \<and>
     Leaf (certificate s') = Leaf (certificate s) \<and>
     httpClient s' = httpClient s"

section \<open>Concrete inputs\<close>

text \<open>
  A small world for running the definitions: three certificates that parse (a leaf with
  a responder, its issuer, and a certificate without responder), a codec that accepts
  two response bodies, a transport that answers the n-th POST from a script, and a clock.
\<close>

definition leaf_x509 :: x509_Certificate where
  "leaf_x509 = \<lparr>Raw = ''leaf'', OCSPServer = [''http://ocsp.example.org'']\<rparr>"

definition issuer_x509 :: x509_Certificate where
  "issuer_x509 = \<lparr>Raw = ''issuer'', OCSPServer = []\<rparr>"

definition plain_x509 :: x509_Certificate where
  "plain_x509 = \<lparr>Raw = ''plain'', OCSPServer = []\<rparr>"

definition scripted :: "http_outcome list \<Rightarrow> http_outcome \<Rightarrow> trace \<Rightarrow> http_outcome" where
  "scripted outcomes rest tr =
     (if length (posts tr) < length outcomes then outcomes ! length (posts tr) else rest)"

definition test_env :: "(trace \<Rightarrow> http_outcome) \<Rightarrow> Time \<Rightarrow> env" where
  "test_env transport clock =
     \<lparr>ParseCertificate =
        (\<lambda>b. if b = ''leaf'' then Some leaf_x509
             else if b = ''issuer'' then Some issuer_x509
             else if b = ''plain'' then Some plain_x509
             else None),
      CreateRequest = (\<lambda>c i. Some (''req:'' @ Raw c)),
      ParseResponse =
        (\<lambda>d i. if d = ''good'' then Some \<lparr>NextUpdate = 3600 * Second\<rparr>
               else if d = ''fresh'' then Some \<lparr>NextUpdate = 7200 * Second\<rparr>
               else None),
      Post = (\<lambda>tr url ctype body. transport tr),
      Now = (\<lambda>tr. clock)\<rparr>"

definition bundle_of :: "bytes list \<Rightarrow> tls_Certificate" where
  "bundle_of chain =
     \<lparr>Certificate = chain, PrivateKey = ''key'', SupportedSignatureAlgorithms = [],
      OCSPStaple = [], SignedCertificateTimestamps = [], Leaf = None\<rparr>"

definition stapling_of :: "bytes list \<Rightarrow> Stapling" where
  "stapling_of chain =
     \<lparr>certificate = bundle_of chain, useOCSPStapling = True, httpClient = DefaultClient\<rparr>"

definition never :: Context where
  "never tr = False"

text \<open>The context that is found cancelled once the timer has fired \<open>n\<close> times.\<close>

definition cancelled_after :: "nat \<Rightarrow> Context" where
  "cancelled_after n tr = (n \<le> length (filter (\<lambda>x. x = EvFired) tr))"

section \<open>What a fetch leaves in the trace\<close>

lemma fetchOCSP_trace:
  "fetchOCSP e cert client tr = (tr', r) \<Longrightarrow>
     tr' = tr \<or> (\<exists>url body. tr' = tr @ [EvPost url ''application/ocsp-request'' body])"
  unfolding fetchOCSP_def
  by (auto simp: Let_def split: list.splits option.splits http_outcome.splits)

lemma fetchOCSP_transient:
  "fetchOCSP e cert client tr = (tr', Returns (resp, renewAt, Some ErrCouldNotPostOCSPRequest)) \<Longrightarrow>
     \<exists>url body. tr' = tr @ [EvPost url ''application/ocsp-request'' body] \<and>
       Post e tr url ''application/ocsp-request'' body = PostError"
  unfolding fetchOCSP_def
  by (auto simp: Let_def split: list.splits option.splits http_outcome.splits)


section \<open>Short chains\<close>

text \<open>
  Claim C1, as amended. For every bundle with fewer than two chain entries \<open>fetchOCSP\<close>
  issues no HTTP POST: it leaves the trace as it found it. For a bundle with exactly one
  entry it returns an error, and which one depends on the order of its checks: the
  responder is looked up before the length of the chain is tested, so an entry that
  parses and declares no responder gives \<open>ErrNoOCSPServerDefined\<close>; an entry that does
  not parse, or that parses and declares a responder, gives \<open>ErrInvalidCertificate\<close>.
\<close>

theorem fetchOCSP_fewer_than_two:
  "length (Certificate cert) < 2 \<Longrightarrow>
     fst (fetchOCSP e cert client tr) = tr \<and>
     (\<forall>owner. Certificate cert = [owner] \<longrightarrow>
        snd (fetchOCSP e cert client tr) =
          Returns ([], zeroTime,
            Some (case ParseCertificate e owner of
                    None \<Rightarrow> ErrInvalidCertificate
                  | Some x509Cert \<Rightarrow>
                      if OCSPServer x509Cert = [] then ErrNoOCSPServerDefined
                      else ErrInvalidCertificate)))"
  unfolding fetchOCSP_def
  by (auto simp: Let_def split: list.splits option.splits http_outcome.splits)

text \<open>The theorem at a chain of one entry that parses and declares a responder.\<close>

theorem fetchOCSP_fewer_than_two_witness:
  "length (Certificate (bundle_of [''leaf''])) < 2 \<and>
   fst (fetchOCSP (test_env (scripted [] (Delivered ''good'')) 0) (bundle_of [''leaf''])
          DefaultClient []) = [] \<and>
   snd (fetchOCSP (test_env (scripted [] (Delivered ''good'')) 0) (bundle_of [''leaf''])
          DefaultClient []) =
     Returns ([], zeroTime, Some ErrInvalidCertificate)"
  using fetchOCSP_fewer_than_two
    [of "bundle_of [''leaf'']" "test_env (scripted [] (Delivered ''good'')) 0" DefaultClient "[]"]
  by (simp add: bundle_of_def test_env_def leaf_x509_def)

text \<open>
  The claim as it was stated fails at a chain of one entry that parses and declares no
  responder: the error is not \<open>ErrInvalidCertificate\<close>.
\<close>

theorem fetchOCSP_no_responder_counterexample:
  "length (Certificate (bundle_of [''plain''])) < 2 \<and>
   fetchOCSP (test_env (scripted [] (Delivered ''good'')) 0) (bundle_of [''plain''])
     DefaultClient [] =
     ([], Returns ([], zeroTime, Some ErrNoOCSPServerDefined))"
  by (simp add: fetchOCSP_def bundle_of_def test_env_def plain_x509_def)

text \<open>
  At the empty chain the index \<open>certificate.Certificate[0]\<close> is evaluated before the
  length is tested: the call panics, and nothing is posted.
\<close>

lemma fetchOCSP_empty_chain_panics:
  "fetchOCSP e (bundle_of []) client tr = (tr, Panics)"
  by (simp add: fetchOCSP_def bundle_of_def)

section \<open>One tick of the scheduler, case by case\<close>

lemma tick_cancelled: "ctx tr \<Longrightarrow> tick e ctx s n tr = Return s (tr @ [EvDone])"
  by (simp add: tick_def)

lemma tick_panic:
  "\<not> ctx tr \<Longrightarrow> fetchOCSP e (certificate s) (httpClient s) (tr @ [EvFired, EvLock]) = (tr', Panics) \<Longrightarrow>
     tick e ctx s n tr = Panic s tr'"
  by (simp add: tick_def)

lemma tick_success:
  "\<not> ctx tr \<Longrightarrow>
   fetchOCSP e (certificate s) (httpClient s) (tr @ [EvFired, EvLock]) = (tr', Returns (resp, renewAt, None)) \<Longrightarrow>
     tick e ctx s n tr =
       Continue (s\<lparr>certificate := (certificate s)\<lparr>OCSPStaple := resp\<rparr>\<rparr>) 0
         (tr' @ [EvReset (Until (Now e tr') renewAt), EvUnlock])"
  by (simp add: tick_def)

lemma tick_transient:
  "\<not> ctx tr \<Longrightarrow>
   fetchOCSP e (certificate s) (httpClient s) (tr @ [EvFired, EvLock]) =
     (tr', Returns (resp, renewAt, Some ErrCouldNotPostOCSPRequest)) \<Longrightarrow>
     tick e ctx s n tr =
       (if n > retry then Return s (tr' @ [EvUnlock])
        else Continue s (n + 1) (tr' @ [EvUnlock, EvReset Minute]))"
  by (simp add: tick_def)

lemma tick_structural:
  "\<not> ctx tr \<Longrightarrow>
   fetchOCSP e (certificate s) (httpClient s) (tr @ [EvFired, EvLock]) = (tr', Returns (resp, renewAt, Some err)) \<Longrightarrow>
   err \<noteq> ErrCouldNotPostOCSPRequest \<Longrightarrow>
     tick e ctx s n tr = Return (s\<lparr>useOCSPStapling := False\<rparr>) (tr' @ [EvUnlock])"
  by (simp add: tick_def)

lemma renewal_loop_Return:
  "tick e ctx s n tr = Return s' tr' \<Longrightarrow> renewal_loop e ctx s n tr = Some (s', tr', Returns ())"
  by (subst renewal_loop.simps) simp

lemma renewal_loop_Continue:
  "tick e ctx s n tr = Continue s' n' tr' \<Longrightarrow> renewal_loop e ctx s n tr = renewal_loop e ctx s' n' tr'"
  by (subst renewal_loop.simps) simp

lemma renewal_loop_Panic:
  "tick e ctx s n tr = Panic s' tr' \<Longrightarrow> renewal_loop e ctx s n tr = Some (s', tr', Panics)"
  by (subst renewal_loop.simps) simp


lemma attempt_transientD:
  "attempt_transient e cert client tr \<Longrightarrow>
     \<exists>url body resp renewAt.
       fetchOCSP e cert client tr =
         (tr @ [EvPost url ''application/ocsp-request'' body],
          Returns (resp, renewAt, Some ErrCouldNotPostOCSPRequest))"
proof -
  assume a: "attempt_transient e cert client tr"
  obtain tr' r where f: "fetchOCSP e cert client tr = (tr', r)"
    by (cases "fetchOCSP e cert client tr")
  with a obtain resp renewAt where r: "r = Returns (resp, renewAt, Some ErrCouldNotPostOCSPRequest)"
    by (auto simp: attempt_transient_def split: go.splits)
  from fetchOCSP_transient [OF f [unfolded r]] f r show ?thesis
    by auto
qed

lemma posts_append [simp]: "posts (xs @ ys) = posts xs @ posts ys"
  by (simp add: posts_def)

lemma armed_append [simp]: "armed (xs @ ys) = armed xs @ armed ys"
  by (induction xs rule: armed.induct) simp_all


section \<open>A body that cannot be closed\<close>




section \<open>The counter of transient errors\<close>

text \<open>
  Claim C3, as amended. In a tick whose fetch returns: a successful fetch sets the counter
  to zero; the counter grows (by one) only when the error is
  \<open>ErrCouldNotPostOCSPRequest\<close>. The ceiling is tested before the increment, so a
  counter that has just passed 10 does not stop the scheduler: it stops when a transient
  error finds the counter above 10 already (the twelfth transient error in a row). It
  then returns with the instance as it was, stapling still on, and \<open>Certificate()\<close>
  returns that bundle, with the staple last installed, and a \<open>nil\<close> error.
\<close>

theorem error_counter:
  assumes "\<not> ctx tr"
    and "fetchOCSP e (certificate s) (httpClient s) (tr @ [EvFired, EvLock]) =
           (tr', Returns (resp, renewAt, err))"
  shows "(err = None \<longrightarrow> (\<exists>s' tr''. tick e ctx s errorCount tr = Continue s' 0 tr'')) \<and>
         (err = Some ErrCouldNotPostOCSPRequest \<and> errorCount \<le> retry \<longrightarrow>
            tick e ctx s errorCount tr = Continue s (errorCount + 1) (tr' @ [EvUnlock, EvReset Minute])) \<and>
         (err = Some ErrCouldNotPostOCSPRequest \<and> errorCount > retry \<longrightarrow>
            renewal_loop e ctx s errorCount tr = Some (s, tr' @ [EvUnlock], Returns ()) \<and>
            snd (Stapling_Certificate s tr'') = (certificate s, None)) \<and>
         (\<forall>s' n tr''. tick e ctx s errorCount tr = Continue s' n tr'' \<longrightarrow>
            (err = None \<and> n = 0) \<or> (err = Some ErrCouldNotPostOCSPRequest \<and> n = errorCount + 1))"
proof (intro conjI impI allI)
  assume "err = None"
  with assms show "\<exists>s' tr''. tick e ctx s errorCount tr = Continue s' 0 tr''"
    by (simp add: tick_success)
next
  assume "err = Some ErrCouldNotPostOCSPRequest \<and> errorCount \<le> retry"
  with assms show "tick e ctx s errorCount tr = Continue s (errorCount + 1) (tr' @ [EvUnlock, EvReset Minute])"
    by (simp add: tick_transient)
next
  assume "err = Some ErrCouldNotPostOCSPRequest \<and> errorCount > retry"
  with assms have "tick e ctx s errorCount tr = Return s (tr' @ [EvUnlock])"
    by (simp add: tick_transient)
  then show "renewal_loop e ctx s errorCount tr = Some (s, tr' @ [EvUnlock], Returns ())"
    by (rule renewal_loop_Return)
next
  show "snd (Stapling_Certificate s tr'') = (certificate s, None)"
    by (simp add: Stapling_Certificate_def)
next
  fix s' n tr''
  assume "tick e ctx s errorCount tr = Continue s' n tr''"
  with assms show "(err = None \<and> n = 0) \<or> (err = Some ErrCouldNotPostOCSPRequest \<and> n = errorCount + 1)"
    by (auto simp: tick_def split: option.splits if_splits)
qed

text \<open>
  The theorem at a transport that always fails (counter 3, then counter 11) and at one
  that answers (counter 7).
\<close>

theorem error_counter_witness:
  "tick (test_env (scripted [] PostError) 0) never (stapling_of [''leaf'', ''issuer'']) 3 [] =
     Continue (stapling_of [''leaf'', ''issuer'']) (3 + 1)
       ([EvFired, EvLock, EvPost ''http://ocsp.example.org'' ''application/ocsp-request'' ''req:leaf'']
        @ [EvUnlock, EvReset Minute]) \<and>
   renewal_loop (test_env (scripted [] PostError) 0) never (stapling_of [''leaf'', ''issuer'']) 11 [] =
     Some (stapling_of [''leaf'', ''issuer''],
           [EvFired, EvLock, EvPost ''http://ocsp.example.org'' ''application/ocsp-request'' ''req:leaf'']
           @ [EvUnlock],
           Returns ()) \<and>
   snd (Stapling_Certificate (stapling_of [''leaf'', ''issuer'']) []) =
     (certificate (stapling_of [''leaf'', ''issuer'']), None) \<and>
   (\<exists>s' tr''. tick (test_env (scripted [] (Delivered ''good'')) 0) never
                 (stapling_of [''leaf'', ''issuer'']) 7 [] = Continue s' 0 tr'')"
proof -
  let ?s = "stapling_of [''leaf'', ''issuer'']"
  let ?p = "EvPost ''http://ocsp.example.org'' ''application/ocsp-request'' ''req:leaf''"
  have n: "\<not> never []"
    by (simp add: never_def)
  have f: "fetchOCSP (test_env (scripted [] PostError) 0) (certificate ?s) (httpClient ?s)
             ([] @ [EvFired, EvLock]) =
           ([EvFired, EvLock, ?p], Returns ([], zeroTime, Some ErrCouldNotPostOCSPRequest))"
    by (simp add: fetchOCSP_def test_env_def bundle_of_def stapling_of_def leaf_x509_def
        issuer_x509_def scripted_def)
  have g: "fetchOCSP (test_env (scripted [] (Delivered ''good'')) 0) (certificate ?s) (httpClient ?s)
             ([] @ [EvFired, EvLock]) =
           ([EvFired, EvLock, ?p], Returns (''good'', 3600 * Second, None))"
    by (simp add: fetchOCSP_def test_env_def bundle_of_def stapling_of_def leaf_x509_def
        issuer_x509_def scripted_def)
  note a = error_counter [where ctx = never and tr = "[]" and errorCount = 3, OF n f]
  note b = error_counter [where ctx = never and tr = "[]" and errorCount = 11 and tr'' = "[]", OF n f]
  note c = error_counter [where ctx = never and tr = "[]" and errorCount = 7, OF n g]
  have 1: "tick (test_env (scripted [] PostError) 0) never ?s 3 [] =
      Continue ?s (3 + 1) ([EvFired, EvLock, ?p] @ [EvUnlock, EvReset Minute])"
    using a [THEN conjunct2, THEN conjunct1] by (simp add: retry_def)
  have 2: "renewal_loop (test_env (scripted [] PostError) 0) never ?s 11 [] =
      Some (?s, [EvFired, EvLock, ?p] @ [EvUnlock], Returns ()) \<and>
      snd (Stapling_Certificate ?s []) = (certificate ?s, None)"
    using b [THEN conjunct2, THEN conjunct2, THEN conjunct1] by (simp add: retry_def)
  have 3: "\<exists>s' tr''. tick (test_env (scripted [] (Delivered ''good'')) 0) never ?s 7 [] =
      Continue s' 0 tr''"
    using c [THEN conjunct1] by simp
  from 1 2 3 show ?thesis
    by blast
qed

text \<open>
  The claim as it was stated fails when the eleventh transient error in a row is followed
  by a success: the counter is 11, above the ceiling, and the scheduler waits a minute,
  fetches again and installs the staple. The run from the counter 0 shows that the state
  is reached: twelve POSTs, the last one answered.
\<close>

theorem counter_above_ceiling_counterexample:
  "tick (test_env (scripted [PostError] (Delivered ''good'')) 0) never (stapling_of [''leaf'', ''issuer'']) 10 [] =
     Continue (stapling_of [''leaf'', ''issuer'']) 11
       [EvFired, EvLock, EvPost ''http://ocsp.example.org'' ''application/ocsp-request'' ''req:leaf'',
        EvUnlock, EvReset Minute] \<and>
   retry < 11 \<and>
   tick (test_env (scripted [PostError] (Delivered ''good'')) 0) never (stapling_of [''leaf'', ''issuer'']) 11
       [EvFired, EvLock, EvPost ''http://ocsp.example.org'' ''application/ocsp-request'' ''req:leaf'',
        EvUnlock, EvReset Minute] =
     Continue ((stapling_of [''leaf'', ''issuer''])
                 \<lparr>certificate := (bundle_of [''leaf'', ''issuer''])\<lparr>OCSPStaple := ''good''\<rparr>\<rparr>) 0
       [EvFired, EvLock, EvPost ''http://ocsp.example.org'' ''application/ocsp-request'' ''req:leaf'',
        EvUnlock, EvReset Minute,
        EvFired, EvLock, EvPost ''http://ocsp.example.org'' ''application/ocsp-request'' ''req:leaf'',
        EvReset (3600 * Second), EvUnlock] \<and>
   map_option (\<lambda>(s, tr, r). (OCSPStaple (certificate s), useOCSPStapling s, length (posts tr), r))
     (RunOCSPRenewal (test_env (scripted (replicate 11 PostError) (Delivered ''good'')) 0)
        (cancelled_after 12) (stapling_of [''leaf'', ''issuer'']) []) =
     Some (''good'', True, 12, Returns ())"
  by code_simp

section \<open>The wait after a successful tick\<close>




section \<open>A transport that always fails\<close>

text \<open>
  When every fetch fails with the error that is retried and the context is never
  cancelled, the scheduler returns, with the instance as it was, after twelve POSTs from
  the counter 0 (the counter is tested before it is incremented).
\<close>

lemma renewal_loop_gives_up:
  assumes nc: "\<forall>tr. \<not> ctx tr"
    and tf: "\<forall>tr. attempt_transient e (certificate s) (httpClient s) tr"
  shows "n \<le> retry + 1 \<Longrightarrow>
     \<exists>tr'. renewal_loop e ctx s n tr = Some (s, tr', Returns ()) \<and>
       length (posts tr') = length (posts tr) + nat (retry + 2 - n)"
proof (induction "nat (retry + 1 - n)" arbitrary: n tr)
  case 0
  then have n: "n = retry + 1" by simp
  from tf obtain url body resp renewAt where
    f: "fetchOCSP e (certificate s) (httpClient s) (tr @ [EvFired, EvLock]) =
         ((tr @ [EvFired, EvLock]) @ [EvPost url ''application/ocsp-request'' body],
          Returns (resp, renewAt, Some ErrCouldNotPostOCSPRequest))"
    using attempt_transientD by blast
  have "tick e ctx s n tr =
      Return s (((tr @ [EvFired, EvLock]) @ [EvPost url ''application/ocsp-request'' body]) @ [EvUnlock])"
    using nc f n by (simp add: tick_transient)
  from renewal_loop_Return [OF this] n show ?case
    by (simp add: posts_def)
next
  case (Suc k)
  then have n: "n \<le> retry" by simp
  from tf obtain url body resp renewAt where
    f: "fetchOCSP e (certificate s) (httpClient s) (tr @ [EvFired, EvLock]) =
         ((tr @ [EvFired, EvLock]) @ [EvPost url ''application/ocsp-request'' body],
          Returns (resp, renewAt, Some ErrCouldNotPostOCSPRequest))"
    using attempt_transientD by blast
  let ?tr = "((tr @ [EvFired, EvLock]) @ [EvPost url ''application/ocsp-request'' body]) @ [EvUnlock, EvReset Minute]"
  have t: "tick e ctx s n tr = Continue s (n + 1) ?tr"
    using nc f n by (simp add: tick_transient)
  have "k = nat (retry + 1 - (n + 1))" using Suc.hyps(2) by simp
  from Suc.hyps(1) [OF this, of ?tr] n obtain tr' where
    r: "renewal_loop e ctx s (n + 1) ?tr = Some (s, tr', Returns ())"
    and l: "length (posts tr') = length (posts ?tr) + nat (retry + 2 - (n + 1))"
    by auto
  from renewal_loop_Continue [OF t] r l n show ?case
    by (simp add: posts_def retry_def)
qed

text \<open>The prober in the same situation, from any value of its loop counter.\<close>

lemma probe_loop_all_transient:
  assumes nc: "\<forall>tr. \<not> ctx tr"
    and tf: "\<forall>tr. attempt_transient e cert client tr"
  shows "i \<le> retry \<Longrightarrow>
     \<exists>new. probe_loop e ctx cert client i tr = (tr @ new, Returns False) \<and>
       armed new = map (\<lambda>k. Second * k) [i + 1..retry] \<and>
       length (filter (\<lambda>x. x = EvFired) new) = nat (retry - i) \<and>
       length (posts new) = nat (retry - i) \<and>
       (new = [] \<or> hd new = EvFired)"
proof (induction "nat (retry - i)" arbitrary: i tr)
  case 0
  then have "i = retry" by simp
  then show ?case
    by (subst probe_loop.simps) (simp add: posts_def)
next
  case (Suc k)
  then have i: "i < retry" by simp
  from tf obtain url body resp renewAt where
    f: "fetchOCSP e cert client (tr @ [EvFired]) =
         ((tr @ [EvFired]) @ [EvPost url ''application/ocsp-request'' body],
          Returns (resp, renewAt, Some ErrCouldNotPostOCSPRequest))"
    using attempt_transientD by blast
  let ?step = "[EvFired, EvPost url ''application/ocsp-request'' body, EvReset (Second * (i + 1))]"
  have p: "probe_loop e ctx cert client i tr = probe_loop e ctx cert client (i + 1) (tr @ ?step)"
    using nc f i by (subst probe_loop.simps) simp
  have "k = nat (retry - (i + 1))" using Suc.hyps(2) by simp
  from Suc.hyps(1) [OF this, of "tr @ ?step"] i obtain new where
    r: "probe_loop e ctx cert client (i + 1) (tr @ ?step) = ((tr @ ?step) @ new, Returns False)"
    and a: "armed new = map (\<lambda>k. Second * k) [i + 1 + 1..retry]"
    and c: "length (filter (\<lambda>x. x = EvFired) new) = nat (retry - (i + 1))"
    and l: "length (posts new) = nat (retry - (i + 1))"
    by auto
  have u: "[i + 1..retry] = (i + 1) # [i + 1 + 1..retry]"
    using i by (simp add: upto_rec1)
  have "probe_loop e ctx cert client i tr = (tr @ (?step @ new), Returns False)"
    using p r by simp
  moreover have "armed (?step @ new) = map (\<lambda>k. Second * k) [i + 1..retry]"
    using a u by simp
  moreover have "length (filter (\<lambda>x. x = EvFired) (?step @ new)) = nat (retry - i)"
    using c i by simp
  moreover have "length (posts (?step @ new)) = nat (retry - i)"
    using l i by (simp add: posts_def)
  moreover have "hd (?step @ new) = EvFired"
    by simp
  ultimately show ?case by blast
qed

text \<open>
  Claim C5. If every call of \<open>fetchOCSP\<close> fails with \<open>ErrCouldNotPostOCSPRequest\<close>
  (and the context is not cancelled meanwhile), \<open>ocspStaplingCanBeUsed\<close> returns false
  after exactly 10 attempts: the timer fires 10 times and 10 POSTs are issued. The timer
  is first armed for one millisecond, before the first attempt, and after the k-th
  attempt it is reset to k seconds: the waits are strictly increasing.
\<close>

theorem prober_makes_retry_attempts:
  assumes "\<forall>tr. \<not> ctx tr"
    and "\<forall>tr. attempt_transient e cert DefaultClient tr"
  shows "\<exists>new. ocspStaplingCanBeUsed e ctx cert tr = (tr @ new, Returns False) \<and>
           take 2 new = [EvNewTimer Millisecond, EvFired] \<and>
           length (filter (\<lambda>x. x = EvFired) new) = 10 \<and>
           length (posts new) = 10 \<and>
           armed new = Millisecond # map (\<lambda>k. Second * k) [1..10] \<and>
           sorted_wrt (<) (armed new)"
proof -
  from probe_loop_all_transient [OF assms, of 0 "tr @ [EvNewTimer Millisecond]"]
  obtain new where
    r: "probe_loop e ctx cert DefaultClient 0 (tr @ [EvNewTimer Millisecond]) =
          ((tr @ [EvNewTimer Millisecond]) @ new, Returns False)"
    and a: "armed new = map (\<lambda>k. Second * k) [0 + 1..retry]"
    and c: "length (filter (\<lambda>x. x = EvFired) new) = nat (retry - 0)"
    and l: "length (posts new) = nat (retry - 0)"
    and h: "new = [] \<or> hd new = EvFired"
    by (auto simp: retry_def)
  from c obtain x xs where n: "new = x # xs"
    by (cases new) (auto simp: retry_def)
  with h have "x = EvFired"
    by simp
  let ?new = "EvNewTimer Millisecond # new @ [EvStop]"
  have "ocspStaplingCanBeUsed e ctx cert tr = (tr @ ?new, Returns False)"
    using r by (simp add: ocspStaplingCanBeUsed_def)
  moreover have "take 2 ?new = [EvNewTimer Millisecond, EvFired]"
    using n \<open>x = EvFired\<close> by simp
  moreover have "length (filter (\<lambda>x. x = EvFired) ?new) = 10"
    using c by (simp add: retry_def)
  moreover have "length (posts ?new) = 10"
    using l by (simp add: retry_def posts_def)
  moreover have ar: "armed ?new = Millisecond # map (\<lambda>k. Second * k) [1..10]"
    using a by (simp add: retry_def)
  moreover have "sorted_wrt (<) (armed ?new)"
    unfolding ar by code_simp
  ultimately show ?thesis by blast
qed

text \<open>The theorem at a transport whose every POST fails.\<close>

theorem prober_makes_retry_attempts_witness:
  "(\<forall>tr. \<not> never tr) \<and>
   (\<forall>tr. attempt_transient (test_env (scripted [] PostError) 0) (bundle_of [''leaf'', ''issuer''])
           DefaultClient tr) \<and>
   (\<exists>new. ocspStaplingCanBeUsed (test_env (scripted [] PostError) 0) never
            (bundle_of [''leaf'', ''issuer'']) [] = ([] @ new, Returns False) \<and>
          take 2 new = [EvNewTimer Millisecond, EvFired] \<and>
          length (filter (\<lambda>x. x = EvFired) new) = 10 \<and>
          length (posts new) = 10 \<and>
          armed new = Millisecond # map (\<lambda>k. Second * k) [1..10] \<and>
          sorted_wrt (<) (armed new))"
proof -
  have n: "\<forall>tr. \<not> never tr"
    by (simp add: never_def)
  have t: "\<forall>tr. attempt_transient (test_env (scripted [] PostError) 0)
             (bundle_of [''leaf'', ''issuer'']) DefaultClient tr"
    by (simp add: attempt_transient_def fetchOCSP_def test_env_def bundle_of_def leaf_x509_def
        issuer_x509_def scripted_def)
  from prober_makes_retry_attempts [OF n t, of "[]"] n t show ?thesis
    by blast
qed

section \<open>The verdict of the prober\<close>










section \<open>What the scheduler may change\<close>

lemma tick_frame:
  "unchanged_but_staple_and_flag s (tick_state (tick e ctx s n tr)) \<and>
   (useOCSPStapling (tick_state (tick e ctx s n tr)) \<longrightarrow> useOCSPStapling s)"
  by (simp add: tick_def unchanged_but_staple_and_flag_def
      split: prod.splits go.splits option.splits)

lemma renewal_loop_frame:
  assumes "renewal_loop e ctx s n tr = Some y"
  shows "unchanged_but_staple_and_flag s (fst y) \<and> (useOCSPStapling (fst y) \<longrightarrow> useOCSPStapling s)"
  using assms
proof (induction e ctx s n tr y rule: renewal_loop.raw_induct [rotated 1, consumes 1])
  case (1 rl e ctx s n tr y)
  show ?case
  proof (cases "tick e ctx s n tr")
    case (Continue s1 n1 tr1)
    with 1(2) have "rl e ctx s1 n1 tr1 = Some y" by simp
    from 1(1) [OF this] tick_frame [of s e ctx n tr] Continue show ?thesis
      by (simp add: unchanged_but_staple_and_flag_def)
  next
    case (Return s1 tr1)
    with 1(2) tick_frame [of s e ctx n tr] show ?thesis
      by auto
  next
    case (Panic s1 tr1)
    with 1(2) tick_frame [of s e ctx n tr] show ?thesis
      by auto
  qed
qed

lemma RunOCSPRenewal_frame:
  assumes "RunOCSPRenewal e ctx s tr = Some (s', tr', r)"
  shows "unchanged_but_staple_and_flag s s' \<and> (useOCSPStapling s' \<longrightarrow> useOCSPStapling s)"
proof (cases "useOCSPStapling s")
  case False
  with assms show ?thesis
    by (simp add: RunOCSPRenewal_def unchanged_but_staple_and_flag_def)
next
  case True
  with assms obtain tr1 where "renewal_loop e ctx s 0 (tr @ [EvNewTimer Second]) = Some (s', tr1, r)"
    by (auto simp: RunOCSPRenewal_def split: option.splits)
  from renewal_loop_frame [OF this] show ?thesis
    by simp
qed

text \<open>
  Claim C7. The flag is set once, by \<open>NewStapling\<close>, to the verdict of the prober.
  \<open>RunOCSPRenewal\<close> does nothing at all when the flag is off, and never turns it on:
  if the flag is on when the method returns, it was on when the method was called. A tick
  whose fetch ends in an error other than \<open>ErrCouldNotPostOCSPRequest\<close> clears the flag
  and is the last one: the loop returns there. \<open>Certificate()\<close> returns no instance,
  so it sets nothing.
\<close>

theorem enabled_flag_only_falls:
  "(NewStapling e ctx cert tr0 = (tr0', Returns s0) \<longrightarrow>
      ocspStaplingCanBeUsed e ctx cert tr0 = (tr0', Returns (useOCSPStapling s0))) \<and>
   (\<not> useOCSPStapling s \<longrightarrow> RunOCSPRenewal e ctx s tr = Some (s, tr, Returns ())) \<and>
   (RunOCSPRenewal e ctx s tr = Some (s', tr', r) \<and> useOCSPStapling s' \<longrightarrow> useOCSPStapling s) \<and>
   (\<not> ctx tr1 \<and>
    fetchOCSP e (certificate s1) (httpClient s1) (tr1 @ [EvFired, EvLock]) =
      (tr1', Returns (resp, renewAt, Some err)) \<and>
    err \<noteq> ErrCouldNotPostOCSPRequest \<longrightarrow>
      renewal_loop e ctx s1 errorCount tr1 =
        Some (s1\<lparr>useOCSPStapling := False\<rparr>, tr1' @ [EvUnlock], Returns ()))"
proof (intro conjI impI)
  assume "NewStapling e ctx cert tr0 = (tr0', Returns s0)"
  then show "ocspStaplingCanBeUsed e ctx cert tr0 = (tr0', Returns (useOCSPStapling s0))"
    by (auto simp: NewStapling_def split: prod.splits go.splits)
next
  assume "\<not> useOCSPStapling s"
  then show "RunOCSPRenewal e ctx s tr = Some (s, tr, Returns ())"
    by (simp add: RunOCSPRenewal_def)
next
  assume "RunOCSPRenewal e ctx s tr = Some (s', tr', r) \<and> useOCSPStapling s'"
  then show "useOCSPStapling s"
    using RunOCSPRenewal_frame by blast
next
  assume "\<not> ctx tr1 \<and>
    fetchOCSP e (certificate s1) (httpClient s1) (tr1 @ [EvFired, EvLock]) =
      (tr1', Returns (resp, renewAt, Some err)) \<and>
    err \<noteq> ErrCouldNotPostOCSPRequest"
  then have "tick e ctx s1 errorCount tr1 = Return (s1\<lparr>useOCSPStapling := False\<rparr>) (tr1' @ [EvUnlock])"
    by (simp add: tick_structural)
  then show "renewal_loop e ctx s1 errorCount tr1 =
        Some (s1\<lparr>useOCSPStapling := False\<rparr>, tr1' @ [EvUnlock], Returns ())"
    by (rule renewal_loop_Return)
qed

text \<open>
  The theorem at a responder that answers (construction, a run with the flag off, a run
  that is cancelled after one tick) and at one whose body cannot be read.
\<close>

theorem enabled_flag_only_falls_witness:
  "ocspStaplingCanBeUsed (test_env (scripted [] (Delivered ''good'')) 0) never
     (bundle_of [''leaf'', ''issuer'']) [] =
     ([EvNewTimer Millisecond, EvFired,
       EvPost ''http://ocsp.example.org'' ''application/ocsp-request'' ''req:leaf'', EvStop],
      Returns (useOCSPStapling (stapling_of [''leaf'', ''issuer'']))) \<and>
   RunOCSPRenewal (test_env (scripted [] (Delivered ''good'')) 0) never
     ((stapling_of [''leaf'', ''issuer''])\<lparr>useOCSPStapling := False\<rparr>) [] =
     Some ((stapling_of [''leaf'', ''issuer''])\<lparr>useOCSPStapling := False\<rparr>, [], Returns ()) \<and>
   useOCSPStapling (stapling_of [''leaf'', ''issuer'']) \<and>
   renewal_loop (test_env (scripted [] ReadError) 0) never (stapling_of [''leaf'', ''issuer'']) 0 [] =
     Some ((stapling_of [''leaf'', ''issuer''])\<lparr>useOCSPStapling := False\<rparr>,
           [EvFired, EvLock, EvPost ''http://ocsp.example.org'' ''application/ocsp-request'' ''req:leaf'']
           @ [EvUnlock],
           Returns ())"
proof -
  let ?e = "test_env (scripted [] (Delivered ''good'')) 0"
  let ?e' = "test_env (scripted [] ReadError) 0"
  let ?s = "stapling_of [''leaf'', ''issuer'']"
  let ?p = "EvPost ''http://ocsp.example.org'' ''application/ocsp-request'' ''req:leaf''"
  let ?t = "[EvNewTimer Millisecond, EvFired, ?p, EvStop]"
  let ?t' = "[EvNewTimer Second, EvFired, EvLock, ?p, EvReset (3600 * Second), EvUnlock, EvDone, EvStop]"
  let ?s' = "?s\<lparr>certificate := (bundle_of [''leaf'', ''issuer''])\<lparr>OCSPStaple := ''good''\<rparr>\<rparr>"
  have new: "NewStapling ?e never (bundle_of [''leaf'', ''issuer'']) [] = (?t, Returns ?s)"
    by code_simp
  have off: "\<not> useOCSPStapling (?s\<lparr>useOCSPStapling := False\<rparr>)"
    by simp
  have run: "RunOCSPRenewal ?e (cancelled_after 1) ?s [] = Some (?s', ?t', Returns ()) \<and>
      useOCSPStapling ?s'"
    by code_simp
  have bad: "\<not> never [] \<and>
      fetchOCSP ?e' (certificate ?s) (httpClient ?s) ([] @ [EvFired, EvLock]) =
        ([EvFired, EvLock, ?p], Returns ([], zeroTime, Some ErrCouldNotReadOCSPResponse)) \<and>
      ErrCouldNotReadOCSPResponse \<noteq> ErrCouldNotPostOCSPRequest"
    by code_simp
  note a = enabled_flag_only_falls [where e = ?e and ctx = never and cert = "bundle_of [''leaf'', ''issuer'']"
      and ?tr0.0 = "[]" and tr0' = ?t and ?s0.0 = ?s, THEN conjunct1, THEN mp, OF new]
  note b = enabled_flag_only_falls [where e = ?e and ctx = never and tr = "[]"
      and s = "?s\<lparr>useOCSPStapling := False\<rparr>",
      THEN conjunct2, THEN conjunct1, THEN mp, OF off]
  note c = enabled_flag_only_falls [where e = ?e and ctx = "cancelled_after 1" and tr = "[]"
      and s = ?s and s' = ?s' and tr' = ?t' and r = "Returns ()",
      THEN conjunct2, THEN conjunct2, THEN conjunct1, THEN mp, OF run]
  note d = enabled_flag_only_falls [where e = ?e' and ctx = never and ?tr1.0 = "[]"
      and ?s1.0 = ?s and tr1' = "[EvFired, EvLock, ?p]" and resp = "[]" and renewAt = zeroTime
      and err = ErrCouldNotReadOCSPResponse and errorCount = 0,
      THEN conjunct2, THEN conjunct2, THEN conjunct2, THEN mp, OF bad]
  from a b c d show ?thesis
    by blast
qed

text \<open>
  Claim C10. \<open>fetchOCSP\<close> receives the bundle by value and returns a trace and its
  triple only: after the call the bundle of the instance is the one that was passed,
  unless the fetch succeeded and the tick then assigns the returned bytes to
  \<open>OCSPStaple\<close>. A tick, and every run of \<open>RunOCSPRenewal\<close> that returns or panics,
  leaves the chain, the key, every other field of the bundle and the client as they
  were: only the staple and the flag may differ.
\<close>

theorem only_staple_and_flag_change:
  "unchanged_but_staple_and_flag s (tick_state (tick e ctx s errorCount tr)) \<and>
   (\<not> ctx tr \<and>
    fetchOCSP e (certificate s) (httpClient s) (tr @ [EvFired, EvLock]) = (tr1, Returns (resp, renewAt, err)) \<longrightarrow>
      certificate (tick_state (tick e ctx s errorCount tr)) =
        (if err = None then (certificate s)\<lparr>OCSPStaple := resp\<rparr> else certificate s)) \<and>
   (RunOCSPRenewal e ctx s tr = Some (s', tr', r) \<longrightarrow> unchanged_but_staple_and_flag s s')"
proof (intro conjI impI)
  show "unchanged_but_staple_and_flag s (tick_state (tick e ctx s errorCount tr))"
    using tick_frame by blast
next
  assume "\<not> ctx tr \<and>
    fetchOCSP e (certificate s) (httpClient s) (tr @ [EvFired, EvLock]) = (tr1, Returns (resp, renewAt, err))"
  then show "certificate (tick_state (tick e ctx s errorCount tr)) =
        (if err = None then (certificate s)\<lparr>OCSPStaple := resp\<rparr> else certificate s)"
    by (auto simp: tick_def)
next
  assume "RunOCSPRenewal e ctx s tr = Some (s', tr', r)"
  then show "unchanged_but_staple_and_flag s s'"
    using RunOCSPRenewal_frame by blast
qed

text \<open>The theorem at a responder that answers, for one tick and for a run of one tick.\<close>

theorem only_staple_and_flag_change_witness:
  "RunOCSPRenewal (test_env (scripted [] (Delivered ''good'')) 0) (cancelled_after 1)
     (stapling_of [''leaf'', ''issuer'']) [] =
     Some ((stapling_of [''leaf'', ''issuer''])
             \<lparr>certificate := (bundle_of [''leaf'', ''issuer''])\<lparr>OCSPStaple := ''good''\<rparr>\<rparr>,
           [EvNewTimer Second, EvFired, EvLock,
            EvPost ''http://ocsp.example.org'' ''application/ocsp-request'' ''req:leaf'',
            EvReset (3600 * Second), EvUnlock, EvDone, EvStop],
           Returns ()) \<and>
   unchanged_but_staple_and_flag (stapling_of [''leaf'', ''issuer''])
     ((stapling_of [''leaf'', ''issuer''])
        \<lparr>certificate := (bundle_of [''leaf'', ''issuer''])\<lparr>OCSPStaple := ''good''\<rparr>\<rparr>) \<and>
   certificate (tick_state (tick (test_env (scripted [] (Delivered ''good'')) 0) never
       (stapling_of [''leaf'', ''issuer'']) 0 [])) =
     (certificate (stapling_of [''leaf'', ''issuer'']))\<lparr>OCSPStaple := ''good''\<rparr>"
proof -
  let ?e = "test_env (scripted [] (Delivered ''good'')) 0"
  let ?s = "stapling_of [''leaf'', ''issuer'']"
  let ?p = "EvPost ''http://ocsp.example.org'' ''application/ocsp-request'' ''req:leaf''"
  let ?t' = "[EvNewTimer Second, EvFired, EvLock, ?p, EvReset (3600 * Second), EvUnlock, EvDone, EvStop]"
  let ?s' = "?s\<lparr>certificate := (bundle_of [''leaf'', ''issuer''])\<lparr>OCSPStaple := ''good''\<rparr>\<rparr>"
  have run: "RunOCSPRenewal ?e (cancelled_after 1) ?s [] = Some (?s', ?t', Returns ())"
    by code_simp
  have ok: "\<not> never [] \<and>
      fetchOCSP ?e (certificate ?s) (httpClient ?s) ([] @ [EvFired, EvLock]) =
        ([EvFired, EvLock, ?p], Returns (''good'', 3600 * Second, None))"
    by code_simp
  note a = only_staple_and_flag_change [where e = ?e and ctx = "cancelled_after 1" and tr = "[]"
      and s = ?s and s' = ?s' and tr' = ?t' and r = "Returns ()",
      THEN conjunct2, THEN conjunct2, THEN mp, OF run]
  note b = only_staple_and_flag_change [where e = ?e and ctx = never and tr = "[]"
      and s = ?s and ?tr1.0 = "[EvFired, EvLock, ?p]" and resp = "''good''"
      and renewAt = "3600 * Second" and err = None and errorCount = 0,
      THEN conjunct2, THEN conjunct1, THEN mp, OF ok]
  from run a b show ?thesis
    by simp
qed

section \<open>The accessor never fails\<close>

lemma held_after_append [simp]: "held_after h (xs @ ys) = held_after (held_after h xs) ys"
  by (induction h xs rule: held_after.induct) simp_all

lemma held_after_posts: "\<forall>x\<in>set fs. is_post x \<Longrightarrow> held_after h fs = h"
  by (induction h fs rule: held_after.induct) simp_all

text \<open>
  Claim C8. For every instance, \<open>Certificate()\<close> returns the bundle the instance holds
  at that moment and a \<open>nil\<close> error; it releases the read lock it takes.
\<close>

theorem Certificate_always_succeeds:
  "fst (snd (Stapling_Certificate s tr)) = certificate s \<and>
   snd (snd (Stapling_Certificate s tr)) = None \<and>
   held (fst (Stapling_Certificate s tr)) = held tr"
  by (simp add: Stapling_Certificate_def held_def)

section \<open>The mutex and the fetch\<close>

text \<open>
  Claim C9, as amended. In every tick the scheduler takes the mutex before it calls
  \<open>fetchOCSP\<close> and holds it across the whole fetch, the POST included: the mutex is
  held at the history at which the fetch starts and at the history at which it ends.
  When the fetch returns, the tick releases the mutex once, on each of its paths: after
  a transient error (before any re-arming of the timer), after clearing the flag, and
  after installing the staple and resetting the timer. When the fetch panics the mutex
  stays held.
\<close>

theorem mutex_held_across_fetch:
  assumes "\<not> ctx tr"
  shows "\<exists>fs rest.
           fst (fetchOCSP e (certificate s) (httpClient s) (tr @ [EvFired, EvLock])) =
             tr @ [EvFired, EvLock] @ fs \<and>
           tick_trace (tick e ctx s errorCount tr) = tr @ [EvFired, EvLock] @ fs @ rest \<and>
           (\<forall>x\<in>set fs. is_post x) \<and>
           held (tr @ [EvFired, EvLock]) \<and>
           held (tr @ [EvFired, EvLock] @ fs) \<and>
           (if is_Panic (tick e ctx s errorCount tr) then rest = []
            else (rest = [EvUnlock] \<or> rest = [EvUnlock, EvReset Minute] \<or>
                  (\<exists>d. rest = [EvReset d, EvUnlock])) \<and>
                 \<not> held (tick_trace (tick e ctx s errorCount tr)))"
proof -
  obtain tr1 r1 where f: "fetchOCSP e (certificate s) (httpClient s) (tr @ [EvFired, EvLock]) = (tr1, r1)"
    by (cases "fetchOCSP e (certificate s) (httpClient s) (tr @ [EvFired, EvLock])")
  from fetchOCSP_trace [OF f] obtain fs where
    fs: "tr1 = tr @ [EvFired, EvLock] @ fs" and p: "\<forall>x\<in>set fs. is_post x"
    by fastforce
  have h: "held (tr @ [EvFired, EvLock] @ fs)"
    using p by (simp add: held_def held_after_posts)
  have "\<exists>rest. tick_trace (tick e ctx s errorCount tr) = tr1 @ rest \<and>
          (if is_Panic (tick e ctx s errorCount tr) then rest = []
           else rest = [EvUnlock] \<or> rest = [EvUnlock, EvReset Minute] \<or> (\<exists>d. rest = [EvReset d, EvUnlock]))"
  proof (cases r1)
    case Panics
    with assms f show ?thesis
      by (simp add: tick_panic)
  next
    case (Returns x)
    obtain resp renewAt err where x: "x = (resp, renewAt, err)"
      by (cases x)
    show ?thesis
    proof (cases err)
      case None
      with assms f Returns x show ?thesis
        by (simp add: tick_success)
    next
      case (Some err')
      show ?thesis
      proof (cases "err' = ErrCouldNotPostOCSPRequest")
        case True
        with assms f Returns x Some show ?thesis
          by (simp add: tick_transient)
      next
        case False
        with assms f Returns x Some show ?thesis
          by (simp add: tick_structural)
      qed
    qed
  qed
  then obtain rest where
    t: "tick_trace (tick e ctx s errorCount tr) = tr1 @ rest"
    and r: "if is_Panic (tick e ctx s errorCount tr) then rest = []
            else rest = [EvUnlock] \<or> rest = [EvUnlock, EvReset Minute] \<or> (\<exists>d. rest = [EvReset d, EvUnlock])"
    by blast
  have "\<not> is_Panic (tick e ctx s errorCount tr) \<Longrightarrow> \<not> held (tick_trace (tick e ctx s errorCount tr))"
    using r t by (auto simp: held_def)
  with f fs p h t r show ?thesis
    by (intro exI [of _ fs] exI [of _ rest]) (auto simp: held_def)
qed

text \<open>The theorem at a transport whose POST fails.\<close>

theorem mutex_held_across_fetch_witness:
  "\<not> never [] \<and>
   (\<exists>fs rest.
      fst (fetchOCSP (test_env (scripted [] PostError) 0) (certificate (stapling_of [''leaf'', ''issuer'']))
             (httpClient (stapling_of [''leaf'', ''issuer''])) ([] @ [EvFired, EvLock])) =
        [] @ [EvFired, EvLock] @ fs \<and>
      tick_trace (tick (test_env (scripted [] PostError) 0) never (stapling_of [''leaf'', ''issuer'']) 0 []) =
        [] @ [EvFired, EvLock] @ fs @ rest \<and>
      held ([] @ [EvFired, EvLock] @ fs) \<and>
      \<not> held (tick_trace (tick (test_env (scripted [] PostError) 0) never
                 (stapling_of [''leaf'', ''issuer'']) 0 [])))"
proof -
  have n: "\<not> never []"
    by (simp add: never_def)
  have p: "\<not> is_Panic (tick (test_env (scripted [] PostError) 0) never (stapling_of [''leaf'', ''issuer'']) 0 [])"
    by code_simp
  from mutex_held_across_fetch [where ctx = never and tr = "[]"
      and e = "test_env (scripted [] PostError) 0" and s = "stapling_of [''leaf'', ''issuer'']"
      and errorCount = 0, OF n] n p
  show ?thesis
    by auto
qed

text \<open>
  The claim as it was stated fails in every tick that reaches the network: the POST is
  issued after \<open>EvLock\<close> and before \<open>EvUnlock\<close>, at a history at which the mutex is
  held.
\<close>

theorem mutex_held_across_fetch_counterexample:
  "held [EvFired, EvLock] \<and>
   fetchOCSP (test_env (scripted [] (Delivered ''good'')) 0) (certificate (stapling_of [''leaf'', ''issuer'']))
     (httpClient (stapling_of [''leaf'', ''issuer''])) [EvFired, EvLock] =
     ([EvFired, EvLock, EvPost ''http://ocsp.example.org'' ''application/ocsp-request'' ''req:leaf''],
      Returns (''good'', 3600 * Second, None)) \<and>
   tick (test_env (scripted [] (Delivered ''good'')) 0) never (stapling_of [''leaf'', ''issuer'']) 0 [] =
     Continue ((stapling_of [''leaf'', ''issuer''])
                 \<lparr>certificate := (bundle_of [''leaf'', ''issuer''])\<lparr>OCSPStaple := ''good''\<rparr>\<rparr>) 0
       [EvFired, EvLock, EvPost ''http://ocsp.example.org'' ''application/ocsp-request'' ''req:leaf'',
        EvReset (3600 * Second), EvUnlock]"
  by code_simp

end
